theory Spec2Isabelle
  imports Main "HOL-Library.Sublist"
begin

section \<open>JavaScript values and the built-ins the extractor calls\<close>

text \<open>
  The engine is \<^verbatim>\<open>class SupabaseExtractor\<close> of \<^verbatim>\<open>src/extractor.ts\<close> (the version with the
  column-type cache and the \<^verbatim>\<open>includeDropStatements\<close> parameter). Its cell values have the
  TypeScript type \<^verbatim>\<open>any\<close>; they are modelled by the kinds \<^verbatim>\<open>formatValue\<close> tells apart.
  Finite numbers are kept abstract (type \<open>'n\<close>): their decimal text is what the built-in
  \<^verbatim>\<open>Number.prototype.toString\<close> returns, a parameter of the model. A \<^verbatim>\<open>Date\<close> object is
  its time value, which is either NaN (an invalid date) or a number of milliseconds.
  A symbol is its description; a bigint or a function is represented by the text
  \<^verbatim>\<open>String(value)\<close> gives for it. An object is a plain object with its own properties in
  the order of \<^verbatim>\<open>Object.keys\<close>; the properties are data, as JSON decoding gives them.
  A string is the list of its characters; the functions below look at no character but
  the two quotes, and add none but those of their templates. A \<^verbatim>\<open>Map\<close> is the finite map of
  its keys; an object used as a dictionary is modelled with its prototype, further down.
\<close>

datatype js_error = Error string | TypeError string | RangeError string

datatype 'n jsnumber = NaN | PosInfinity | NegInfinity | Finite 'n

datatype jsdate = InvalidDate | ValidDate int

datatype 'n jsval =
    VNull
  | VUndefined
  | VString string
  | VBoolean bool
  | VNumber "'n jsnumber"
  | VDate jsdate
  | VArray "'n jsval list"
  | VObject "(string \<times> 'n jsval) list"
  | VSymbol string
  | VExotic string

text \<open>
  The built-ins whose results are not computed here: the decimal text of a finite number
  and whether it is zero, the two renderings of a date, \<^verbatim>\<open>JSON.stringify\<close>, which either
  returns the JSON text or throws (a cyclic structure, a bigint inside), and the methods of
  \<^verbatim>\<open>Array.prototype\<close>, which depend on the engine: for the name of a method, the \<^verbatim>\<open>length\<close>
  of that function.
\<close>

record 'n js_runtime =
  Number_toString :: "'n \<Rightarrow> string"
  Number_isZero :: "'n \<Rightarrow> bool"
  Date_toISOString :: "int \<Rightarrow> string"
  Date_toString :: "jsdate \<Rightarrow> string"
  JSON_stringify :: "'n jsval \<Rightarrow> js_error + string"
  Array_prototype :: "string \<Rightarrow> nat option"

definition squote :: char where
  "squote = CHR 0x27"

definition dquote :: char where
  "dquote = CHR 0x22"

text \<open>\<^verbatim>\<open>s.replace(/c/g, r)\<close> for a one-character pattern.\<close>

definition replaceAll :: "char \<Rightarrow> string \<Rightarrow> string \<Rightarrow> string" where
  "replaceAll c r s = concat (map (\<lambda>x. if x = c then r else [x]) s)"

text \<open>\<^verbatim>\<open>xs.join(sep)\<close> on an array of strings.\<close>

fun join :: "string \<Rightarrow> string list \<Rightarrow> string" where
  "join sep [] = []"
| "join sep [x] = x"
| "join sep (x # y # ys) = x @ sep @ join sep (y # ys)"

text \<open>The decimal text of an array length or index, as a template literal renders it.\<close>

fun showNat :: "nat \<Rightarrow> string" where
  "showNat n =
     (if n < 10 then [''0123456789'' ! n]
      else showNat (n div 10) @ [''0123456789'' ! (n mod 10)])"

declare showNat.simps [simp del]

text \<open>\<^verbatim>\<open>s.endsWith(suf)\<close>.\<close>

definition endsWith :: "string \<Rightarrow> string \<Rightarrow> bool" where
  "endsWith s suf = (length suf \<le> length s \<and> drop (length s - length suf) s = suf)"

definition Number_isFinite :: "'n jsnumber \<Rightarrow> bool" where
  "Number_isFinite n = (case n of Finite x \<Rightarrow> True | _ \<Rightarrow> False)"

text \<open>\<^verbatim>\<open>n.toString()\<close> on a number.\<close>

definition numberText :: "'n js_runtime \<Rightarrow> 'n jsnumber \<Rightarrow> string" where
  "numberText rt n =
     (case n of
        NaN \<Rightarrow> ''NaN''
      | PosInfinity \<Rightarrow> ''Infinity''
      | NegInfinity \<Rightarrow> ''-Infinity''
      | Finite x \<Rightarrow> Number_toString rt x)"

text \<open>
  \<^verbatim>\<open>d.toISOString()\<close> throws a RangeError when the time value is not finite.
\<close>

definition toISOString :: "'n js_runtime \<Rightarrow> jsdate \<Rightarrow> js_error + string" where
  "toISOString rt d =
     (case d of
        InvalidDate \<Rightarrow> Inl (RangeError ''Invalid time value'')
      | ValidDate t \<Rightarrow> Inr (Date_toISOString rt t))"

text \<open>
  \<^verbatim>\<open>String(v)\<close>. An array is joined with commas, its null and undefined elements giving
  the empty text; joining converts a symbol element implicitly, which throws a TypeError,
  while \<^verbatim>\<open>String\<close> itself renders a symbol. A plain object gives \<^verbatim>\<open>[object Object]\<close>, unless
  it has a property \<^verbatim>\<open>toString\<close> of its own: that is data and cannot be called, the
  inherited \<^verbatim>\<open>valueOf\<close> returns the object, and the conversion throws a TypeError.
\<close>

fun String_js :: "'n js_runtime \<Rightarrow> 'n jsval \<Rightarrow> js_error + string"
  and joinElements :: "'n js_runtime \<Rightarrow> 'n jsval list \<Rightarrow> js_error + string list" where
  "String_js rt VNull = Inr ''null''"
| "String_js rt VUndefined = Inr ''undefined''"
| "String_js rt (VString s) = Inr s"
| "String_js rt (VBoolean b) = Inr (if b then ''true'' else ''false'')"
| "String_js rt (VNumber n) = Inr (numberText rt n)"
| "String_js rt (VDate d) = Inr (Date_toString rt d)"
| "String_js rt (VArray xs) =
     (case joinElements rt xs of
        Inl e \<Rightarrow> Inl e
      | Inr texts \<Rightarrow> Inr (join '','' texts))"
| "String_js rt (VObject kvs) =
     (if ''toString'' \<in> set (map fst kvs)
      then Inl (TypeError ''Cannot convert object to primitive value'')
      else Inr ''[object Object]'')"
| "String_js rt (VSymbol d) = Inr (''Symbol('' @ d @ '')'')"
| "String_js rt (VExotic s) = Inr s"
| "joinElements rt [] = Inr []"
| "joinElements rt (x # xs) =
     (case (case x of
              VNull \<Rightarrow> Inr []
            | VUndefined \<Rightarrow> Inr []
            | VSymbol d \<Rightarrow> Inl (TypeError ''Cannot convert a Symbol value to a string'')
            | _ \<Rightarrow> String_js rt x) of
        Inl e \<Rightarrow> Inl e
      | Inr t \<Rightarrow>
          (case joinElements rt xs of
             Inl e \<Rightarrow> Inl e
           | Inr ts \<Rightarrow> Inr (t # ts)))"

definition Array_isArray :: "'n jsval \<Rightarrow> bool" where
  "Array_isArray v = (case v of VArray xs \<Rightarrow> True | _ \<Rightarrow> False)"

definition arrayItems :: "'n jsval \<Rightarrow> 'n jsval list" where
  "arrayItems v = (case v of VArray xs \<Rightarrow> xs | _ \<Rightarrow> [])"

section \<open>The value formatter and the identifier quoter\<close>

text \<open>
  \<^verbatim>\<open>`'${s.replace(/'/g, "''")}'`\<close>: the text between single quotes, every embedded single
  quote doubled.
\<close>

definition quoteLiteral :: "string \<Rightarrow> string" where
  "quoteLiteral s = squote # replaceAll squote [squote, squote] s @ [squote]"

text \<open>
  The per-run cache \<^verbatim>\<open>this.columnTypes\<close>: table name to column name to declared type.
\<close>

type_synonym column_types = "string \<rightharpoonup> (string \<rightharpoonup> string)"

text \<open>
  \<^verbatim>\<open>tableName && columnName && this.columnTypes.get(tableName)?.get(columnName)\<close>:
  an absent or empty name short-circuits (the empty string is falsy and is the result).
\<close>

definition lookupColumnType ::
  "column_types \<Rightarrow> string option \<Rightarrow> string option \<Rightarrow> string option" where
  "lookupColumnType columnTypes tableName columnName =
     (case tableName of
        None \<Rightarrow> None
      | Some t \<Rightarrow>
          if t = [] then Some []
          else (case columnName of
                  None \<Rightarrow> None
                | Some c \<Rightarrow>
                    if c = [] then Some []
                    else (case columnTypes t of None \<Rightarrow> None | Some m \<Rightarrow> m c)))"

text \<open>
  \<^verbatim>\<open>value.map((item) => `'${String(item).replace(/'/g, "''")}'`)\<close>: the first item whose
  conversion throws ends the map.
\<close>

fun escapedItems :: "'n js_runtime \<Rightarrow> 'n jsval list \<Rightarrow> js_error + string list" where
  "escapedItems rt [] = Inr []"
| "escapedItems rt (item # items) =
     (case String_js rt item of
        Inl e \<Rightarrow> Inl e
      | Inr text \<Rightarrow>
          (case escapedItems rt items of
             Inl e \<Rightarrow> Inl e
           | Inr texts \<Rightarrow> Inr (quoteLiteral text # texts)))"

text \<open>
  The branch \<^verbatim>\<open>typeof value === "object"\<close> of \<^verbatim>\<open>formatValue\<close>. The array literal is built
  outside the \<^verbatim>\<open>try\<close>, so an item that cannot be converted makes the function throw.
\<close>

definition formatObject ::
  "'n js_runtime \<Rightarrow> column_types \<Rightarrow> 'n jsval \<Rightarrow> string option \<Rightarrow> string option
     \<Rightarrow> js_error + string" where
  "formatObject rt columnTypes v tableName columnName =
     (let columnType = lookupColumnType columnTypes tableName columnName;
          isArrayColumn = (case columnType of None \<Rightarrow> False | Some ty \<Rightarrow> endsWith ty ''[]'')
      in if isArrayColumn \<and> Array_isArray v
         then (case escapedItems rt (arrayItems v) of
                 Inl e \<Rightarrow> Inl e
               | Inr items \<Rightarrow>
                   Inr (''ARRAY['' @ join '','' items @ '']::''
                        @ (case columnType of None \<Rightarrow> ''undefined'' | Some ty \<Rightarrow> ty)))
         else (case JSON_stringify rt v of
                 Inr jsonStr \<Rightarrow>
                   Inr (squote # replaceAll squote [squote, squote] jsonStr
                        @ squote # ''::jsonb'')
               | Inl e \<Rightarrow> Inr ''NULL''))"

definition formatValue ::
  "'n js_runtime \<Rightarrow> column_types \<Rightarrow> 'n jsval \<Rightarrow> string option \<Rightarrow> string option
     \<Rightarrow> js_error + string" where
  "formatValue rt columnTypes v tableName columnName =
     (case v of
        VNull \<Rightarrow> Inr ''NULL''
      | VUndefined \<Rightarrow> Inr ''NULL''
      | VString s \<Rightarrow> Inr (quoteLiteral s)
      | VBoolean b \<Rightarrow> Inr (if b then ''TRUE'' else ''FALSE'')
      | VNumber n \<Rightarrow> if \<not> Number_isFinite n then Inr ''NULL'' else Inr (numberText rt n)
      | VDate d \<Rightarrow>
          (case toISOString rt d of
             Inl e \<Rightarrow> Inl e
           | Inr isoText \<Rightarrow> Inr (squote # isoText @ [squote]))
      | VArray xs \<Rightarrow> formatObject rt columnTypes v tableName columnName
      | VObject kvs \<Rightarrow> formatObject rt columnTypes v tableName columnName
      | VSymbol d \<Rightarrow> map_sum id quoteLiteral (String_js rt v)
      | VExotic s \<Rightarrow> map_sum id quoteLiteral (String_js rt v))"

definition quoteIdentifier :: "string \<Rightarrow> string" where
  "quoteIdentifier identifier = dquote # replaceAll dquote [dquote, dquote] identifier @ [dquote]"

section \<open>Configuration and the two clients\<close>

record table_info =
  name :: string
  schema :: string

record extractor_config =
  supabaseUrl :: string
  supabaseKey :: string
  databaseUrl :: "string option"
  verbose :: "bool option"

text \<open>\<^verbatim>\<open>if (this.config.databaseUrl)\<close>: an absent or empty connection string is falsy.\<close>

definition hasDatabaseUrl :: "extractor_config \<Rightarrow> bool" where
  "hasDatabaseUrl cfg = (case databaseUrl cfg of None \<Rightarrow> False | Some url \<Rightarrow> url \<noteq> [])"

text \<open>
  The privileged connection (\<^verbatim>\<open>pg\<close>'s \<^verbatim>\<open>Client\<close>): what \<^verbatim>\<open>connect()\<close> and \<^verbatim>\<open>end()\<close> do
  (\<open>Some e\<close>: the call throws \<open>e\<close>) and what each query of the source returns, either the
  thrown error or the result rows with their columns in the order of the \<^verbatim>\<open>SELECT\<close> list.
\<close>

record pg_server =
  pg_connect :: "js_error option"
  pg_end :: "js_error option"
  tablesQuery :: "js_error + (string \<times> string) list"
  columnsQuery :: "string \<Rightarrow> string \<Rightarrow> js_error + (string \<times> string) list"
  enumQuery :: "js_error + (string \<times> string) list"
  createTableQuery :: "string \<Rightarrow> string \<Rightarrow> js_error + string list"
  indexQuery :: "js_error + string list"

text \<open>
  The restricted data API (\<^verbatim>\<open>supabase-js\<close>). The remote procedure \<^verbatim>\<open>get_all_tables\<close> either
  throws or resolves to \<^verbatim>\<open>{ data, error }\<close>, where \<^verbatim>\<open>data\<close> is falsy, an array (whose
  elements may be null) or some other truthy value. A ranged select resolves to
  \<^verbatim>\<open>{ data, error }\<close> with \<^verbatim>\<open>data\<close> the rows or null and \<^verbatim>\<open>error\<close> null or an object with a
  message (the client reports a failed select there). The answer to a select is a function
  of the table and the window: the data does not change during a run. A row is the list of
  its keys and values in the order of \<^verbatim>\<open>Object.keys\<close>.
\<close>

record rpc_table =
  table_name :: string
  table_schema :: "string option"

datatype rpc_data = DataFalsy | DataRows "rpc_table option list" | DataNotArray

datatype rpc_result = RpcThrows js_error | RpcReturns rpc_data "string option"

type_synonym 'n row = "(string \<times> 'n jsval) list"

record 'n select_response =
  response_data :: "'n row list option"
  response_error :: "string option"

record 'n supabase_client =
  rpc_get_all_tables :: rpc_result
  select_range :: "string \<Rightarrow> nat \<Rightarrow> nat \<Rightarrow> 'n select_response"

text \<open>
  \<^verbatim>\<open>try { body } finally { await client.end() }\<close>: the release runs on every path, and an
  error thrown by it replaces the outcome of the body.
\<close>

definition tryFinally :: "js_error + 'a \<Rightarrow> js_error option \<Rightarrow> js_error + 'a" where
  "tryFinally body release = (case release of Some e \<Rightarrow> Inl e | None \<Rightarrow> body)"

section \<open>Table discovery\<close>






section \<open>Objects used as dictionaries\<close>

text \<open>
  The datasets are kept in a plain object, \<^verbatim>\<open>const allData: Record<string, any[]> = {}\<close>,
  written with \<^verbatim>\<open>allData[table.name] = data\<close> and read with \<^verbatim>\<open>data[table.name]\<close>. Such an
  object has its own properties and a prototype: \<^verbatim>\<open>Object.prototype\<close> for an object
  literal, an array once one has been assigned to \<^verbatim>\<open>__proto__\<close>, or none
  (\<^verbatim>\<open>Object.create(null)\<close>).
\<close>

datatype 'n js_prototype = ProtoObject | ProtoArray "'n row list" | ProtoNull

record 'n js_dict =
  own_properties :: "string \<rightharpoonup> 'n row list"
  prototype :: "'n js_prototype"

text \<open>The object literal \<^verbatim>\<open>{}\<close>.\<close>

definition emptyObject :: "'n js_dict" where
  "emptyObject = \<lparr>own_properties = Map.empty, prototype = ProtoObject\<rparr>"

text \<open>
  \<^verbatim>\<open>obj[key] = v\<close> for an array \<open>v\<close>. Every property an object can inherit here is a
  writable data property, which the assignment shadows with a property of the object's
  own, except the accessor \<^verbatim>\<open>__proto__\<close> of \<^verbatim>\<open>Object.prototype\<close>: unless the object has a
  property of that name of its own, its setter replaces the prototype and adds no key.
\<close>

definition assignProperty :: "'n js_dict \<Rightarrow> string \<Rightarrow> 'n row list \<Rightarrow> 'n js_dict" where
  "assignProperty obj key v =
     (if key = ''__proto__'' \<and> own_properties obj key = None \<and> prototype obj \<noteq> ProtoNull
      then obj\<lparr>prototype := ProtoArray v\<rparr>
      else obj\<lparr>own_properties := (own_properties obj)(key \<mapsto> v)\<rparr>)"

text \<open>
  What \<^verbatim>\<open>obj[key]\<close> can be: undefined, an array of rows, an inherited method (a function,
  with its \<^verbatim>\<open>length\<close>), the \<^verbatim>\<open>length\<close> of the array that is the prototype, one of that
  array's rows, or \<^verbatim>\<open>Object.prototype\<close> itself.
\<close>

datatype 'n property_value =
    PUndefined
  | PRows "'n row list"
  | PFunction nat
  | PNumber nat
  | PRow "'n row"
  | PObjectPrototype

text \<open>The methods of \<^verbatim>\<open>Object.prototype\<close>, each with the \<^verbatim>\<open>length\<close> of the function.\<close>

definition Object_prototype :: "string \<Rightarrow> nat option" where
  "Object_prototype =
     map_of [(''constructor'', 1), (''hasOwnProperty'', 1), (''isPrototypeOf'', 1),
             (''propertyIsEnumerable'', 1), (''toLocaleString'', 0), (''toString'', 0),
             (''valueOf'', 0), (''__defineGetter__'', 2), (''__defineSetter__'', 2),
             (''__lookupGetter__'', 1), (''__lookupSetter__'', 1)]"

text \<open>
  A lookup that reaches \<^verbatim>\<open>Object.prototype\<close>; \<open>self\<close> is what the getter \<^verbatim>\<open>__proto__\<close>
  returns, the prototype of the object the lookup started from.
\<close>

definition fromObjectPrototype :: "'n property_value \<Rightarrow> string \<Rightarrow> 'n property_value" where
  "fromObjectPrototype self key =
     (if key = ''__proto__'' then self
      else (case Object_prototype key of Some n \<Rightarrow> PFunction n | None \<Rightarrow> PUndefined))"

text \<open>The index a key denotes in an array of \<open>n\<close> elements, if any.\<close>

definition arrayIndex :: "string \<Rightarrow> nat \<Rightarrow> nat option" where
  "arrayIndex key n = find (\<lambda>i. showNat i = key) [0..<n]"

text \<open>
  \<^verbatim>\<open>obj[key]\<close>: the object's own property, else the prototype chain. Through an array the
  chain is the array's \<^verbatim>\<open>length\<close> and elements, then \<^verbatim>\<open>Array.prototype\<close>, then
  \<^verbatim>\<open>Object.prototype\<close>.
\<close>

definition getProperty :: "'n js_runtime \<Rightarrow> 'n js_dict \<Rightarrow> string \<Rightarrow> 'n property_value" where
  "getProperty rt obj key =
     (case own_properties obj key of
        Some rows \<Rightarrow> PRows rows
      | None \<Rightarrow>
          (case prototype obj of
             ProtoNull \<Rightarrow> PUndefined
           | ProtoObject \<Rightarrow> fromObjectPrototype PObjectPrototype key
           | ProtoArray a \<Rightarrow>
               if key = ''length'' then PNumber (length a)
               else (case arrayIndex key (length a) of
                       Some i \<Rightarrow> PRow (a ! i)
                     | None \<Rightarrow>
                         (case Array_prototype rt key of
                            Some n \<Rightarrow> PFunction n
                          | None \<Rightarrow> fromObjectPrototype (PRows a) key))))"

section \<open>Column types and paginated extraction\<close>

definition fetchColumnTypes ::
  "extractor_config \<Rightarrow> pg_server \<Rightarrow> string \<Rightarrow> string \<Rightarrow> js_error + (string \<rightharpoonup> string)" where
  "fetchColumnTypes cfg pg tableName schemaName =
     (if \<not> hasDatabaseUrl cfg then Inr Map.empty
      else tryFinally
             (case pg_connect pg of
                Some e \<Rightarrow> Inl e
              | None \<Rightarrow>
                  (case columnsQuery pg schemaName tableName of
                     Inl e \<Rightarrow> Inl e
                   | Inr rows \<Rightarrow> Inr (foldl (\<lambda>typeMap (c, ty). typeMap(c \<mapsto> ty)) Map.empty rows)))
             (pg_end pg))"

definition limit :: nat where
  "limit = 1000"

text \<open>
  The \<^verbatim>\<open>while (hasMore)\<close> loop of \<^verbatim>\<open>extractTableData\<close>, with \<^verbatim>\<open>offset\<close> and \<^verbatim>\<open>allRows\<close> as
  the loop state. The third component of the state is not in the source: it records the
  page requests issued so far, as the pairs given to \<^verbatim>\<open>.range(from, to)\<close>. The loop need not
  end (a server that always answers with a full page), so the result is an option.
\<close>

partial_function (option) extractLoop ::
  "'n supabase_client \<Rightarrow> string \<Rightarrow> nat \<Rightarrow> 'n row list \<Rightarrow> (nat \<times> nat) list
     \<Rightarrow> ((js_error + 'n row list) \<times> (nat \<times> nat) list) option" where
  "extractLoop api tableName offset allRows requests =
     (let response = select_range api tableName offset (offset + limit - 1);
          requests' = requests @ [(offset, offset + limit - 1)]
      in case response_error response of
           Some message \<Rightarrow>
             Some (Inl (Error (''Error fetching data from '' @ tableName @ '': '' @ message)),
                   requests')
         | None \<Rightarrow>
             (case response_data response of
                None \<Rightarrow> Some (Inr allRows, requests')
              | Some page \<Rightarrow>
                  if length page > 0
                  then (if length page = limit
                        then extractLoop api tableName (offset + limit) (allRows @ page) requests'
                        else Some (Inr (allRows @ page), requests'))
                  else Some (Inr allRows, requests')))"

declare extractLoop.simps [code]

definition extractTableData ::
  "'n supabase_client \<Rightarrow> string \<Rightarrow> (js_error + 'n row list) option" where
  "extractTableData api tableName = map_option fst (extractLoop api tableName 0 [] [])"

definition pageRequests :: "'n supabase_client \<Rightarrow> string \<Rightarrow> (nat \<times> nat) list option" where
  "pageRequests api tableName = map_option snd (extractLoop api tableName 0 [] [])"

text \<open>The first loop of \<^verbatim>\<open>extractAllData\<close>: a failed type lookup is caught and only warned about.\<close>

fun fetchAllColumnTypes ::
  "extractor_config \<Rightarrow> pg_server \<Rightarrow> table_info list \<Rightarrow> column_types \<Rightarrow> column_types" where
  "fetchAllColumnTypes cfg pg [] columnTypes = columnTypes"
| "fetchAllColumnTypes cfg pg (t # ts) columnTypes =
     (case fetchColumnTypes cfg pg (name t) (schema t) of
        Inr types \<Rightarrow> fetchAllColumnTypes cfg pg ts (columnTypes(name t \<mapsto> types))
      | Inl e \<Rightarrow> fetchAllColumnTypes cfg pg ts columnTypes)"

text \<open>
  The second loop: a failed extraction is caught and the empty array assigned under the
  table's name. \<open>None\<close>: some extraction does not return.
\<close>

fun extractAllRows ::
  "'n supabase_client \<Rightarrow> table_info list \<Rightarrow> 'n js_dict \<Rightarrow> 'n js_dict option" where
  "extractAllRows api [] allData = Some allData"
| "extractAllRows api (t # ts) allData =
     (case extractTableData api (name t) of
        None \<Rightarrow> None
      | Some (Inr rows) \<Rightarrow> extractAllRows api ts (assignProperty allData (name t) rows)
      | Some (Inl e) \<Rightarrow> extractAllRows api ts (assignProperty allData (name t) []))"

text \<open>
  \<^verbatim>\<open>extractAllData\<close> returns the datasets; the column-type cache it fills is instance state,
  returned here as the second component.
\<close>

definition extractAllData ::
  "extractor_config \<Rightarrow> pg_server \<Rightarrow> 'n supabase_client \<Rightarrow> column_types \<Rightarrow> table_info list
     \<Rightarrow> ('n js_dict \<times> column_types) option" where
  "extractAllData cfg pg api columnTypes tables =
     (let columnTypes' = (if hasDatabaseUrl cfg
                          then fetchAllColumnTypes cfg pg tables columnTypes
                          else columnTypes)
      in map_option (\<lambda>allData. (allData, columnTypes')) (extractAllRows api tables emptyObject))"

section \<open>SQL generation\<close>

text \<open>
  \<^verbatim>\<open>row[col]\<close> for a key of the row's own (the columns come from \<^verbatim>\<open>Object.keys(row)\<close>)
  or a name \<^verbatim>\<open>Object.prototype\<close> does not have.
\<close>

definition rowValue :: "'n row \<Rightarrow> string \<Rightarrow> 'n jsval" where
  "rowValue row col = (case map_of row col of Some v \<Rightarrow> v | None \<Rightarrow> VUndefined)"

text \<open>
  \<^verbatim>\<open>columns.map((col) => this.formatValue(row[col], table.name, col))\<close>; the first cell
  whose formatting throws ends the map.
\<close>

fun formatValues ::
  "'n js_runtime \<Rightarrow> column_types \<Rightarrow> string \<Rightarrow> 'n row \<Rightarrow> string list \<Rightarrow> js_error + string list" where
  "formatValues rt columnTypes tableName row [] = Inr []"
| "formatValues rt columnTypes tableName row (col # cols) =
     (case formatValue rt columnTypes (rowValue row col) (Some tableName) (Some col) of
        Inl e \<Rightarrow> Inl e
      | Inr v \<Rightarrow>
          (case formatValues rt columnTypes tableName row cols of
             Inl e \<Rightarrow> Inl e
           | Inr vs \<Rightarrow> Inr (v # vs)))"

text \<open>
  In the generators the variable \<^verbatim>\<open>sql\<close> is kept as the list of the fragments appended to
  it, one per \<^verbatim>\<open>sql += ...\<close> of the source in the order of execution; the string the source
  builds is their concatenation. The template literals of \<^verbatim>\<open>generateInsertStatements\<close>:
\<close>

definition noDataComment :: "table_info \<Rightarrow> string" where
  "noDataComment table = ''-- No data for table: '' @ name table @ ''\<newline>\<newline>''"

definition dropTableStatement :: "table_info \<Rightarrow> string" where
  "dropTableStatement table =
     ''DROP TABLE IF EXISTS '' @ quoteIdentifier (schema table) @ ''.''
       @ quoteIdentifier (name table) @ '' CASCADE;\<newline>''"

definition tableComment :: "table_info \<Rightarrow> string" where
  "tableComment table = ''-- Table: '' @ schema table @ ''.'' @ name table @ ''\<newline>''"

definition dataComment :: "table_info \<Rightarrow> string" where
  "dataComment table = ''-- Data for table: '' @ name table @ ''\<newline>''"

definition rowsComment :: "nat \<Rightarrow> string" where
  "rowsComment n = ''-- Rows: '' @ showNat n @ ''\<newline>\<newline>''"

text \<open>The three fragments that make one \<^verbatim>\<open>INSERT\<close> statement.\<close>

definition insertStatement :: "table_info \<Rightarrow> string list \<Rightarrow> string list \<Rightarrow> string list" where
  "insertStatement table columns values =
     [''INSERT INTO '' @ quoteIdentifier (schema table) @ ''.'' @ quoteIdentifier (name table)
        @ '' ('',
      join '', '' (map quoteIdentifier columns),
      '') VALUES ('' @ join '', '' values @ '');\<newline>'']"

text \<open>
  The body of the inner loop of \<^verbatim>\<open>generateInsertStatements\<close>: what one row appends. The
  column list is the row's own keys.
\<close>

definition rowFragments ::
  "'n js_runtime \<Rightarrow> column_types \<Rightarrow> table_info \<Rightarrow> 'n row \<Rightarrow> js_error + string list" where
  "rowFragments rt columnTypes table row =
     (let columns = map fst row
      in case formatValues rt columnTypes (name table) row columns of
           Inl e \<Rightarrow> Inl e
         | Inr vals \<Rightarrow> Inr (insertStatement table columns vals))"

text \<open>The inner loop: the rows in order; a cell that throws ends the whole generation.\<close>

fun insertRows ::
  "'n js_runtime \<Rightarrow> column_types \<Rightarrow> table_info \<Rightarrow> 'n row list \<Rightarrow> js_error + string list" where
  "insertRows rt columnTypes table [] = Inr []"
| "insertRows rt columnTypes table (row # rows) =
     (case rowFragments rt columnTypes table row of
        Inl e \<Rightarrow> Inl e
      | Inr stmt \<Rightarrow>
          (case insertRows rt columnTypes table rows of
             Inl e \<Rightarrow> Inl e
           | Inr later \<Rightarrow> Inr (stmt @ later)))"

text \<open>
  The test \<^verbatim>\<open>!tableData || tableData.length === 0\<close> on what \<^verbatim>\<open>data[table.name]\<close> gave.
  Undefined and the number 0 are falsy. An array and a function have a \<^verbatim>\<open>length\<close>, a
  number and \<^verbatim>\<open>Object.prototype\<close> have none, and a row has the one its column of that
  name holds.
\<close>

definition noTableData :: "'n js_runtime \<Rightarrow> 'n property_value \<Rightarrow> bool" where
  "noTableData rt tableData =
     (case tableData of
        PUndefined \<Rightarrow> True
      | PRows rows \<Rightarrow> length rows = 0
      | PFunction n \<Rightarrow> n = 0
      | PNumber n \<Rightarrow> n = 0
      | PRow row \<Rightarrow>
          (case rowValue row ''length'' of
             VNumber (Finite x) \<Rightarrow> Number_isZero rt x
           | _ \<Rightarrow> False)
      | PObjectPrototype \<Rightarrow> False)"

text \<open>
  The body of the outer loop: what one table appends. After the test, the fragments that
  precede the rows are appended and \<^verbatim>\<open>for (const row of tableData)\<close> runs: it iterates an
  array, and throws a TypeError on anything else \<^verbatim>\<open>data[table.name]\<close> may have found.
\<close>

definition tableFragments ::
  "'n js_runtime \<Rightarrow> column_types \<Rightarrow> table_info \<Rightarrow> 'n js_dict \<Rightarrow> bool
     \<Rightarrow> js_error + string list" where
  "tableFragments rt columnTypes table dataset includeDropStatements =
     (let tableData = getProperty rt dataset (name table)
      in if noTableData rt tableData then Inr [noDataComment table]
         else (case tableData of
                 PRows rows \<Rightarrow>
                   (case insertRows rt columnTypes table rows of
                      Inl e \<Rightarrow> Inl e
                    | Inr stmts \<Rightarrow>
                        Inr ((if includeDropStatements
                              then [dropTableStatement table, tableComment table]
                              else [])
                             @ [dataComment table, rowsComment (length rows)]
                             @ stmts
                             @ [''\<newline>'']))
               | _ \<Rightarrow> Inl (TypeError ''tableData is not iterable'')))"

fun insertFragments ::
  "'n js_runtime \<Rightarrow> column_types \<Rightarrow> table_info list \<Rightarrow> 'n js_dict \<Rightarrow> bool
     \<Rightarrow> js_error + string list" where
  "insertFragments rt columnTypes [] dataset includeDropStatements = Inr []"
| "insertFragments rt columnTypes (table # rest) dataset includeDropStatements =
     (case tableFragments rt columnTypes table dataset includeDropStatements of
        Inl e \<Rightarrow> Inl e
      | Inr frags \<Rightarrow>
          (case insertFragments rt columnTypes rest dataset includeDropStatements of
             Inl e \<Rightarrow> Inl e
           | Inr later \<Rightarrow> Inr (frags @ later)))"

definition generateInsertStatements ::
  "'n js_runtime \<Rightarrow> column_types \<Rightarrow> table_info list \<Rightarrow> 'n js_dict \<Rightarrow> bool
     \<Rightarrow> js_error + string" where
  "generateInsertStatements rt columnTypes tables dataset includeDropStatements =
     map_sum id concat (insertFragments rt columnTypes tables dataset includeDropStatements)"

text \<open>The table loop of \<^verbatim>\<open>extractSchema\<close>; only the first row of each result is used.\<close>

fun schemaTables :: "pg_server \<Rightarrow> table_info list \<Rightarrow> js_error + string list" where
  "schemaTables pg [] = Inr []"
| "schemaTables pg (table # rest) =
     (case createTableQuery pg (schema table) (name table) of
        Inl e \<Rightarrow> Inl e
      | Inr rows \<Rightarrow>
          (case schemaTables pg rest of
             Inl e \<Rightarrow> Inl e
           | Inr later \<Rightarrow>
               Inr ((case rows of
                       [] \<Rightarrow> []
                     | create_statement # others \<Rightarrow>
                         [tableComment table, create_statement @ ''\<newline>\<newline>''])
                    @ later)))"

text \<open>
  The enum section and the index section of \<^verbatim>\<open>extractSchema\<close>. The texts \<^verbatim>\<open>type_name\<close>,
  \<^verbatim>\<open>create_enum\<close>, \<^verbatim>\<open>create_statement\<close> and \<^verbatim>\<open>indexdef\<close> are computed by the database and
  copied as they come.
\<close>

definition enumFragments :: "(string \<times> string) list \<Rightarrow> string list" where
  "enumFragments enums =
     (if length enums > 0
      then ''-- Enum Types\<newline>\<newline>''
           # concat (map (\<lambda>(type_name, create_enum).
               [''DROP TYPE IF EXISTS '' @ type_name @ '' CASCADE;\<newline>'',
                create_enum @ ''\<newline>\<newline>'']) enums)
      else [])"

definition indexFragments :: "string list \<Rightarrow> string list" where
  "indexFragments indexes =
     (if length indexes > 0
      then ''-- Indexes\<newline>\<newline>''
           # map (\<lambda>indexdef. indexdef @ '';\<newline>'') indexes
           @ [''\<newline>'']
      else [])"

text \<open>
  \<^verbatim>\<open>extractSchema\<close>: one connection for the enum query, the table loop and the index query,
  released on every path.
\<close>

definition schemaFragments :: "pg_server \<Rightarrow> table_info list \<Rightarrow> js_error + string list" where
  "schemaFragments pg tables =
     tryFinally
       (case pg_connect pg of
          Some e \<Rightarrow> Inl e
        | None \<Rightarrow>
            (case enumQuery pg of
               Inl e \<Rightarrow> Inl e
             | Inr enums \<Rightarrow>
                 (case schemaTables pg tables of
                    Inl e \<Rightarrow> Inl e
                  | Inr tableSql \<Rightarrow>
                      (case indexQuery pg of
                         Inl e \<Rightarrow> Inl e
                       | Inr indexes \<Rightarrow>
                           Inr ([''-- Database Schema\<newline>\<newline>'']
                                @ enumFragments enums
                                @ tableSql
                                @ indexFragments indexes)))))
       (pg_end pg)"

definition extractSchema :: "pg_server \<Rightarrow> table_info list \<Rightarrow> js_error + string" where
  "extractSchema pg tables = map_sum id concat (schemaFragments pg tables)"

definition reconstructionHeader :: "string \<Rightarrow> string list" where
  "reconstructionHeader now =
     [''-- Database Reconstruction Script\<newline>'',
      ''-- Generated: '' @ now @ ''\<newline>\<newline>'',
      ''-- Note: The following session_replication_role commands require superuser privileges\<newline>'',
      ''-- and have been commented out. Uncomment if you have appropriate permissions.\<newline>'',
      ''-- SET session_replication_role = replica;\<newline>\<newline>'']"

definition schemaSkippedNote :: "string list" where
  "schemaSkippedNote =
     [''-- Note: Schema extraction requires DATABASE_URL to be set.\<newline>'',
      ''-- Only data INSERT statements are included below.\<newline>\<newline>'']"

definition reconstructionFooter :: "string list" where
  "reconstructionFooter =
     [''\<newline>-- Re-enable triggers and constraints\<newline>'',
      ''-- SET session_replication_role = DEFAULT;\<newline>'']"

text \<open>
  \<^verbatim>\<open>generateReconstructionSQL\<close>; \<open>now\<close> is the text of \<^verbatim>\<open>new Date().toISOString()\<close>. The
  insert statements are generated without the third argument, whose default is \<^verbatim>\<open>false\<close>.
\<close>

definition generateReconstructionSQL ::
  "'n js_runtime \<Rightarrow> extractor_config \<Rightarrow> pg_server \<Rightarrow> column_types \<Rightarrow> string \<Rightarrow> table_info list
     \<Rightarrow> 'n js_dict \<Rightarrow> js_error + string" where
  "generateReconstructionSQL rt cfg pg columnTypes now tables dataset =
     (case (if hasDatabaseUrl cfg
            then (case extractSchema pg tables of
                    Inl e \<Rightarrow> Inl e
                  | Inr schemaSQL \<Rightarrow> Inr (reconstructionHeader now @ [schemaSQL]))
            else Inr (reconstructionHeader now @ schemaSkippedNote)) of
        Inl e \<Rightarrow> Inl e
      | Inr sql \<Rightarrow>
          (case generateInsertStatements rt columnTypes tables dataset False of
             Inl e \<Rightarrow> Inl e
           | Inr insertSQL \<Rightarrow> Inr (concat (sql @ [insertSQL] @ reconstructionFooter))))"

section \<open>Reading quoted text back\<close>

text \<open>
  The inverse of quote doubling: every pair of adjacent quote characters \<open>q\<close> stands for
  one, and a quote character that is not followed by a second one is malformed (\<open>None\<close>).
\<close>

fun undouble :: "char \<Rightarrow> string \<Rightarrow> string option" where
  "undouble q [] = Some []"
| "undouble q [c] = (if c = q then None else Some [c])"
| "undouble q (c # d # rest) =
     (if c = q
      then (if d = q then map_option ((#) q) (undouble q rest) else None)
      else map_option ((#) c) (undouble q (d # rest)))"

text \<open>
  The spec's "standard single-quote SQL literal parsing", written from its words and not
  from the source: a literal starts and ends with a single quote, and between them a
  doubled single quote stands for one.
\<close>

definition parseSqlLiteral :: "string \<Rightarrow> string option" where
  "parseSqlLiteral lit =
     (if 2 \<le> length lit \<and> hd lit = squote \<and> last lit = squote
      then undouble squote (butlast (tl lit))
      else None)"

text \<open>The lines of a text, as a client that executes the script line by line reads them.\<close>

fun linesOf :: "string \<Rightarrow> string list" where
  "linesOf [] = [[]]"
| "linesOf (c # cs) =
     (if c = CHR 0x0A then [] # linesOf cs
      else (case linesOf cs of
              [] \<Rightarrow> [[c]]
            | l # ls \<Rightarrow> (c # l) # ls))"

section \<open>An environment for the examples\<close>

text \<open>
  A restricted API that serves a fixed database consistently: a ranged select of a known
  table answers with the rows of the inclusive window, and a select of an unknown table
  with an error. The remote procedure \<^verbatim>\<open>get_all_tables\<close> is not installed.
\<close>

definition servedApi :: "(string \<rightharpoonup> 'n row list) \<Rightarrow> 'n supabase_client" where
  "servedApi db =
     \<lparr>rpc_get_all_tables = RpcThrows (Error ''function get_all_tables does not exist''),
      select_range = (\<lambda>tableName from to.
        case db tableName of
          None \<Rightarrow> \<lparr>response_data = None, response_error = Some ''relation does not exist''\<rparr>
        | Some rows \<Rightarrow>
            \<lparr>response_data = Some (take (to + 1 - from) (drop from rows)),
             response_error = None\<rparr>)\<rparr>"

text \<open>
  A runtime whose finite numbers are the natural numbers, printed in decimal. The examples
  contain no date and no JSON value and look nothing up in \<^verbatim>\<open>Array.prototype\<close>, so the
  last four built-ins are placeholders.
\<close>

definition exampleRuntime :: "nat js_runtime" where
  "exampleRuntime =
     \<lparr>Number_toString = showNat,
      Number_isZero = (\<lambda>x. x = 0),
      Date_toISOString = (\<lambda>t. ''1970-01-01T00:00:00.000Z''),
      Date_toString = (\<lambda>d. ''Thu Jan 01 1970''),
      JSON_stringify = (\<lambda>v. Inl (TypeError ''not serialisable'')),
      Array_prototype = (\<lambda>key. None)\<rparr>"

definition restrictedConfig :: extractor_config where
  "restrictedConfig =
     \<lparr>supabaseUrl = ''https://example.supabase.co'', supabaseKey = ''service-role-key'',
      databaseUrl = None, verbose = None\<rparr>"

definition privilegedConfig :: extractor_config where
  "privilegedConfig =
     \<lparr>supabaseUrl = ''https://example.supabase.co'', supabaseKey = ''service-role-key'',
      databaseUrl = Some ''postgresql://postgres@db.example/postgres'', verbose = None\<rparr>"

definition examplePg :: pg_server where
  "examplePg =
     \<lparr>pg_connect = None, pg_end = None,
      tablesQuery = Inr [(''posts'', ''public'')],
      columnsQuery = (\<lambda>schemaName tableName. Inr [(''id'', ''integer''), (''tags'', ''text[]'')]),
      enumQuery = Inr [],
      createTableQuery = (\<lambda>schemaName tableName. Inr []),
      indexQuery = Inr []\<rparr>"

definition unreachablePg :: pg_server where
  "unreachablePg =
     \<lparr>pg_connect = Some (Error ''connect ECONNREFUSED''), pg_end = None,
      tablesQuery = Inr [],
      columnsQuery = (\<lambda>schemaName tableName. Inr []),
      enumQuery = Inr [],
      createTableQuery = (\<lambda>schemaName tableName. Inr []),
      indexQuery = Inr []\<rparr>"

definition usersTable :: table_info where
  "usersTable = \<lparr>name = ''users'', schema = ''public''\<rparr>"

definition brokenTable :: table_info where
  "brokenTable = \<lparr>name = ''broken'', schema = ''public''\<rparr>"

definition tagsTable :: table_info where
  "tagsTable = \<lparr>name = ''tags'', schema = ''public''\<rparr>"

definition userRows :: "nat row list" where
  "userRows =
     [[(''id'', VNumber (Finite 1)), (''name'', VString ''Ann'')],
      [(''id'', VNumber (Finite 2)), (''name'', VString ''O'Brien'')]]"

text \<open>The database behind the example API: \<^verbatim>\<open>users\<close> and \<^verbatim>\<open>tags\<close> exist, \<^verbatim>\<open>broken\<close> does not.\<close>

definition exampleDb :: "string \<rightharpoonup> nat row list" where
  "exampleDb = [''users'' \<mapsto> userRows, ''tags'' \<mapsto> []]"

text \<open>The datasets of that database, as an object literal.\<close>

definition exampleData :: "nat js_dict" where
  "exampleData = \<lparr>own_properties = exampleDb, prototype = ProtoObject\<rparr>"

text \<open>
  Three names a table of the public schema may have: the first two are properties every
  object literal inherits, the third holds a line break.
\<close>

definition protoTable :: table_info where
  "protoTable = \<lparr>name = ''__proto__'', schema = ''public''\<rparr>"

definition constructorTable :: table_info where
  "constructorTable = \<lparr>name = ''constructor'', schema = ''public''\<rparr>"

definition lineBreakTable :: table_info where
  "lineBreakTable = \<lparr>name = ''x\<newline>DROP TABLE users; --'', schema = ''public''\<rparr>"

text \<open>A database that has a table named \<^verbatim>\<open>__proto__\<close>, and the table \<^verbatim>\<open>tags\<close>.\<close>

definition protoDb :: "string \<rightharpoonup> nat row list" where
  "protoDb = [''__proto__'' \<mapsto> userRows, ''tags'' \<mapsto> []]"

section \<open>Properties of the formatter and the quoter\<close>

lemma replaceAll_Nil: "replaceAll c r [] = []"
  by (simp add: replaceAll_def)

lemma replaceAll_Cons: "replaceAll c r (x # s) = (if x = c then r else [x]) @ replaceAll c r s"
  by (simp add: replaceAll_def)

lemma undouble_other: "c \<noteq> q \<Longrightarrow> undouble q (c # xs) = map_option ((#) c) (undouble q xs)"
  by (cases xs) auto

lemma undouble_replaceAll: "undouble q (replaceAll q [q, q] s) = Some s"
  by (induction s) (simp_all add: replaceAll_Nil replaceAll_Cons undouble_other)

lemma count_replaceAll:
  "length (filter (\<lambda>x. x = q) (replaceAll q [q, q] s)) = 2 * length (filter (\<lambda>x. x = q) s)"
  by (induction s) (simp_all add: replaceAll_Nil replaceAll_Cons)

text \<open>
  Claim C3. Let the types fetched by \<^verbatim>\<open>fetchColumnTypes\<close> for a table give the column
  \<open>c\<close> the declared type \<^verbatim>\<open>text[]\<close>, and let them be cached the way \<^verbatim>\<open>extractAllData\<close>
  caches them. Then \<^verbatim>\<open>formatValue\<close> renders the array \<^verbatim>\<open>["a","b"]\<close> of that column as
  \<^verbatim>\<open>ARRAY['a','b']::text[]\<close>. The table and the column have non-empty names, as the
  identifiers of a database do (an empty name is falsy and skips the lookup).
\<close>

theorem formatValue_text_array:
  assumes "fetchColumnTypes cfg pg (name t) (schema t) = Inr types"
    and "types c = Some ''text[]''"
    and "name t \<noteq> []" and "c \<noteq> []"
  shows "formatValue rt (fetchAllColumnTypes cfg pg [t] ct) (VArray [VString ''a'', VString ''b''])
           (Some (name t)) (Some c)
         = Inr ''ARRAY['a','b']::text[]''"
  using assms
  by (simp add: formatValue_def formatObject_def lookupColumnType_def endsWith_def
      Array_isArray_def arrayItems_def quoteLiteral_def replaceAll_def squote_def Let_def)

theorem formatValue_text_array_witness:
  "fetchColumnTypes privilegedConfig examplePg ''posts'' ''public''
     = Inr [''id'' \<mapsto> ''integer'', ''tags'' \<mapsto> ''text[]'']
   \<and> formatValue exampleRuntime
         (fetchAllColumnTypes privilegedConfig examplePg
            [\<lparr>name = ''posts'', schema = ''public''\<rparr>] Map.empty)
         (VArray [VString ''a'', VString ''b'']) (Some ''posts'') (Some ''tags'')
       = Inr ''ARRAY['a','b']::text[]''"
proof -
  have f: "fetchColumnTypes privilegedConfig examplePg
             (name \<lparr>name = ''posts'', schema = ''public''\<rparr>)
             (schema \<lparr>name = ''posts'', schema = ''public''\<rparr>)
           = Inr [''id'' \<mapsto> ''integer'', ''tags'' \<mapsto> ''text[]'']"
    by (simp add: fetchColumnTypes_def privilegedConfig_def examplePg_def hasDatabaseUrl_def
        tryFinally_def)
  have e: "[''id'' \<mapsto> ''integer'', ''tags'' \<mapsto> ''text[]''] ''tags'' = Some ''text[]''"
    by simp
  from formatValue_text_array [OF f e, of exampleRuntime Map.empty] f
  show ?thesis by simp
qed

text \<open>
  The branch looks for a type text that ends in \<^verbatim>\<open>[]\<close>. When the cached entry
  is \<^verbatim>\<open>ARRAY\<close>, the text \<^verbatim>\<open>extractSchema\<close> tests \<^verbatim>\<open>data_type\<close> against for array columns, the
  array is rendered through the JSON branch instead.
\<close>

lemma formatValue_ARRAY_entry:
  assumes "ct t = Some types" and "types c = Some ''ARRAY''"
  shows "formatValue rt ct (VArray xs) (Some t) (Some c)
         = Inr (case JSON_stringify rt (VArray xs) of
                  Inr jsonStr \<Rightarrow>
                    squote # replaceAll squote [squote, squote] jsonStr @ squote # ''::jsonb''
                | Inl e \<Rightarrow> ''NULL'')"
  using assms
  by (simp add: formatValue_def formatObject_def lookupColumnType_def endsWith_def Let_def
      split: sum.splits)

text \<open>
  Claim C5 asks that \<^verbatim>\<open>formatValue\<close> never throws. It does throw on a \<^verbatim>\<open>Date\<close> whose
  time value is NaN: \<^verbatim>\<open>value.toISOString()\<close> raises a RangeError, which nothing catches.
\<close>

theorem formatValue_invalid_date_throws:
  "formatValue rt ct (VDate InvalidDate) tn cn = Inl (RangeError ''Invalid time value'')"
  by (simp add: formatValue_def toISOString_def)

text \<open>
  A second way to throw: in an array column, an item that \<^verbatim>\<open>String\<close> cannot convert.
\<close>

lemma formatValue_array_item_throws:
  assumes "ct t = Some types" and "types c = Some ''text[]''" and "t \<noteq> []" and "c \<noteq> []"
  shows "formatValue rt ct (VArray [VObject [(''toString'', VNull)]]) (Some t) (Some c)
         = Inl (TypeError ''Cannot convert object to primitive value'')"
  using assms
  by (simp add: formatValue_def formatObject_def lookupColumnType_def endsWith_def
      Array_isArray_def arrayItems_def Let_def)

text \<open>
  Whenever the function returns, the text is not empty (the decimal text of a number
  never is).
\<close>

lemma escapedItems_Inr:
  "escapedItems rt items = Inr texts \<Longrightarrow> length texts = length items"
  by (induction items arbitrary: texts) (auto split: sum.splits)

lemma formatValue_nonempty:
  assumes "formatValue rt ct v tn cn = Inr s" and "\<And>x. Number_toString rt x \<noteq> []"
  shows "s \<noteq> []"
  using assms
  by (cases v)
     (auto simp: formatValue_def quoteLiteral_def formatObject_def Let_def toISOString_def
        numberText_def Number_isFinite_def
        split: jsnumber.splits jsdate.splits sum.splits option.splits if_splits)

text \<open>
  One cell that throws aborts the generation of the whole script.
\<close>

lemma generateInsertStatements_invalid_date_aborts:
  "generateInsertStatements rt ct [usersTable, tagsTable]
     \<lparr>own_properties = [''users'' \<mapsto> [[(''id'', VNumber (Finite x)), (''seen'', VDate InvalidDate)]],
                         ''tags'' \<mapsto> []],
      prototype = ProtoObject\<rparr>
     incl
   = Inl (RangeError ''Invalid time value'')"
  by (simp add: generateInsertStatements_def tableFragments_def getProperty_def noTableData_def
      rowFragments_def usersTable_def tagsTable_def formatValue_def toISOString_def rowValue_def
      Number_isFinite_def Let_def)

text \<open>
  Claim C6. \<^verbatim>\<open>formatValue\<close> returns the text \<^verbatim>\<open>NULL\<close> for null, for NaN, for both
  infinities, hence for every number that is not finite; for a finite number it returns
  the decimal text \<^verbatim>\<open>Number.prototype.toString\<close> gives.
\<close>

theorem formatValue_null_and_numbers:
  "formatValue rt ct VNull tn cn = Inr ''NULL''
   \<and> formatValue rt ct (VNumber NaN) tn cn = Inr ''NULL''
   \<and> formatValue rt ct (VNumber PosInfinity) tn cn = Inr ''NULL''
   \<and> formatValue rt ct (VNumber NegInfinity) tn cn = Inr ''NULL''
   \<and> formatValue rt ct (VNumber n) tn cn
       = Inr (if Number_isFinite n then numberText rt n else ''NULL'')
   \<and> formatValue rt ct (VNumber (Finite x)) tn cn = Inr (Number_toString rt x)"
  by (simp add: formatValue_def Number_isFinite_def numberText_def)

text \<open>
  Claim C7. For every string \<open>s\<close>, \<^verbatim>\<open>formatValue\<close> returns a single-quoted literal, and
  parsing that literal (strip the enclosing quotes, read each doubled quote as one) gives
  back exactly \<open>s\<close>.
\<close>

theorem formatValue_string_roundtrip:
  "formatValue rt ct (VString s) tn cn = Inr (quoteLiteral s)
   \<and> hd (quoteLiteral s) = squote \<and> last (quoteLiteral s) = squote
   \<and> parseSqlLiteral (quoteLiteral s) = Some s"
  by (simp add: formatValue_def quoteLiteral_def parseSqlLiteral_def undouble_replaceAll)

text \<open>
  Claim C8. For every identifier, the result of \<^verbatim>\<open>quoteIdentifier\<close> begins and ends with a
  double quote (so it has at least two characters), and between the two every double quote
  of the input appears doubled: the interior has no unpaired double quote, reads back as
  the identifier, and holds twice as many double quotes as the identifier. The function
  is total: it has no failure value.
\<close>

theorem quoteIdentifier_quoted:
  "hd (quoteIdentifier s) = dquote
   \<and> last (quoteIdentifier s) = dquote
   \<and> 2 \<le> length (quoteIdentifier s)
   \<and> undouble dquote (butlast (tl (quoteIdentifier s))) = Some s
   \<and> length (filter (\<lambda>c. c = dquote) (butlast (tl (quoteIdentifier s))))
       = 2 * length (filter (\<lambda>c. c = dquote) s)"
  by (simp add: quoteIdentifier_def undouble_replaceAll count_replaceAll)

section \<open>Properties of discovery\<close>






section \<open>Properties of extraction\<close>

lemma pages_shift:
  "(offset, offset + 999) # map (\<lambda>i. (offset + 1000 + i * 1000, offset + 1000 + i * 1000 + 999)) [0..<m]
   = map (\<lambda>i. (offset + i * 1000, offset + i * 1000 + (999::nat))) [0..<Suc m]"
proof -
  have "map (\<lambda>i. (offset + i * 1000, offset + i * 1000 + (999::nat))) [0..<Suc m]
        = (offset + 0 * 1000, offset + 0 * 1000 + 999)
          # map (\<lambda>i. (offset + Suc i * 1000, offset + Suc i * 1000 + 999)) [0..<m]"
    by (rule map_upt_Suc)
  then show ?thesis by (simp add: add.assoc)
qed

text \<open>One turn of the loop on a response without error.\<close>

lemma extractLoop_unfold:
  assumes "select_range api t offset (offset + limit - 1)
           = \<lparr>response_data = Some page, response_error = None\<rparr>"
  shows "extractLoop api t offset acc reqs
         = (if length page > 0
            then (if length page = limit
                  then extractLoop api t (offset + limit) (acc @ page)
                         (reqs @ [(offset, offset + limit - 1)])
                  else Some (Inr (acc @ page), reqs @ [(offset, offset + limit - 1)]))
            else Some (Inr acc, reqs @ [(offset, offset + limit - 1)]))"
  by (subst extractLoop.simps)
     (simp only: assms Let_def select_response.simps option.case)

text \<open>
  Against a server that answers every window with the rows of a fixed sequence, the loop
  started at any offset returns: it collects the rows from that offset on, and it asks for
  one page more than the number of full pages that remain.
\<close>

lemma extractLoop_served:
  assumes served: "\<forall>offset. select_range api t offset (offset + 999)
            = \<lparr>response_data = Some (take 1000 (drop offset rows)), response_error = None\<rparr>"
  shows "extractLoop api t offset acc reqs
         = Some (Inr (acc @ drop offset rows),
                 reqs @ map (\<lambda>i. (offset + i * 1000, offset + i * 1000 + 999))
                          [0..<(length rows - offset) div 1000 + 1])"
proof (induction "length rows - offset" arbitrary: offset acc reqs rule: less_induct)
  case less
  let ?page = "take 1000 (drop offset rows)"
  let ?L = "length rows - offset"
  have last_index: "offset + limit - 1 = offset + 999" by (simp add: limit_def)
  have next_offset: "offset + limit = offset + 1000" by (simp add: limit_def)
  have resp: "select_range api t offset (offset + limit - 1)
              = \<lparr>response_data = Some ?page, response_error = None\<rparr>"
    using served by (simp only: last_index)
  note unfold = extractLoop_unfold [OF resp, of acc reqs, unfolded last_index, unfolded next_offset]
  have len: "length ?page = min 1000 ?L" by simp
  consider (full) "1000 \<le> ?L" | (short) "0 < ?L" "?L < 1000" | (none) "?L = 0" by linarith
  then show ?case
  proof cases
    case full
    then have lp: "length ?page = limit" using len by (simp add: limit_def)
    have smaller: "length rows - (offset + 1000) < length rows - offset" using full by simp
    have step: "extractLoop api t offset acc reqs
                = extractLoop api t (offset + 1000) (acc @ ?page) (reqs @ [(offset, offset + 999)])"
      unfolding unfold using lp by (simp add: limit_def)
    have rows_eq: "?page @ drop (offset + 1000) rows = drop offset rows"
    proof -
      have "drop (offset + 1000) rows = drop 1000 (drop offset rows)"
        by (simp only: drop_drop add.commute)
      then show ?thesis by (simp only: append_take_drop_id)
    qed
    have cnt: "(length rows - offset) div 1000 = Suc ((length rows - (offset + 1000)) div 1000)"
      using full by (simp add: le_div_geq)
    have pages: "[(offset, offset + 999)]
                 @ map (\<lambda>i. (offset + 1000 + i * 1000, offset + 1000 + i * 1000 + 999))
                     [0..<(length rows - (offset + 1000)) div 1000 + 1]
                 = map (\<lambda>i. (offset + i * 1000, offset + i * 1000 + 999))
                     [0..<(length rows - offset) div 1000 + 1]"
      using pages_shift [of offset "(length rows - (offset + 1000)) div 1000 + 1"]
      by (simp only: cnt append_Cons append_Nil Suc_eq_plus1)
    show ?thesis
      unfolding step less.hyps [OF smaller]
      using rows_eq pages by (simp only: append_assoc)
  next
    case short
    then have lp: "length ?page \<noteq> limit" "0 < length ?page" using len by (simp_all add: limit_def)
    have pg: "?page = drop offset rows" using short by simp
    have d: "?L div 1000 = 0" using short by simp
    show ?thesis
      unfolding unfold using lp by (simp add: d pg)
  next
    case none
    then have pg: "drop offset rows = []" by simp
    show ?thesis
      unfolding unfold by (simp add: pg none)
  qed
qed

lemma servedApi_window:
  "db t = Some rows \<Longrightarrow>
   \<forall>offset. select_range (servedApi db) t offset (offset + 999)
     = \<lparr>response_data = Some (take 1000 (drop offset rows)), response_error = None\<rparr>"
  by (simp add: servedApi_def)

lemma extractTableData_served:
  "db t = Some rows \<Longrightarrow> extractTableData (servedApi db) t = Some (Inr rows)"
  using extractLoop_served [OF servedApi_window, of db t rows 0 "[]" "[]"]
  by (simp add: extractTableData_def)

lemma extractTableData_unknown:
  "db t = None \<Longrightarrow>
   extractTableData (servedApi db) t
   = Some (Inl (Error (''Error fetching data from '' @ t @ '': relation does not exist'')))"
  by (subst extractTableData_def, subst extractLoop.simps) (simp add: servedApi_def)

text \<open>
  Claim C1, as the code has it. Let a table of \<open>k * 1000 + r\<close> rows with \<open>r < 1000\<close> be
  served consistently: every request for the window from \<open>offset\<close> to \<open>offset + 999\<close>
  answers with the rows of that window. Then \<^verbatim>\<open>extractTableData\<close> returns exactly the rows
  of the table, in order, and it issues \<open>k + 1\<close> page requests, for the windows starting
  at \<open>0, 1000, ..., k * 1000\<close>, also when \<open>r = 0\<close>: the last request is then answered with
  an empty page, which is what ends the loop.
\<close>

theorem extractTableData_pagination:
  assumes "length rows = k * 1000 + r" and "r < 1000"
    and "\<forall>offset. select_range api t offset (offset + 999)
            = \<lparr>response_data = Some (take 1000 (drop offset rows)), response_error = None\<rparr>"
  shows "extractTableData api t = Some (Inr rows)
         \<and> pageRequests api t = Some (map (\<lambda>i. (i * 1000, i * 1000 + 999)) [0..<k + 1])
         \<and> map_option length (pageRequests api t) = Some (k + 1)"
proof -
  have "length rows div 1000 = k" using assms(1,2) by simp
  then show ?thesis
    using extractLoop_served [OF assms(3), of 0 "[]" "[]"]
    by (simp add: extractTableData_def pageRequests_def)
qed

theorem extractTableData_pagination_witness:
  "length userRows = 0 * 1000 + 2 \<and> (2::nat) < 1000
   \<and> (\<forall>offset. select_range (servedApi exampleDb) ''users'' offset (offset + 999)
         = \<lparr>response_data = Some (take 1000 (drop offset userRows)), response_error = None\<rparr>)
   \<and> extractTableData (servedApi exampleDb) ''users'' = Some (Inr userRows)
   \<and> pageRequests (servedApi exampleDb) ''users'' = Some [(0, 999)]"
proof -
  have l: "length userRows = 0 * 1000 + 2" by (simp add: userRows_def)
  have r: "(2::nat) < 1000" by simp
  have s: "\<forall>offset. select_range (servedApi exampleDb) ''users'' offset (offset + 999)
         = \<lparr>response_data = Some (take 1000 (drop offset userRows)), response_error = None\<rparr>"
    by (simp add: servedApi_def exampleDb_def)
  from extractTableData_pagination [OF l r s] l s show ?thesis by simp
qed

text \<open>
  Claim C1 as stated fails when \<open>r = 0\<close>: a table of exactly \<open>1 * 1000 + 0\<close> rows, served
  consistently, costs two page requests and not one.
\<close>

theorem extractTableData_full_page_counterexample:
  "length (replicate 1000 ([]::nat row)) = 1 * 1000 + 0
   \<and> pageRequests (servedApi [''items'' \<mapsto> replicate 1000 ([]::nat row)]) ''items''
       = Some [(0, 999), (1000, 1999)]
   \<and> length [(0::nat, 999::nat), (1000, 1999)] \<noteq> 1"
proof -
  have "\<forall>offset. select_range (servedApi [''items'' \<mapsto> replicate 1000 ([]::nat row)]) ''items''
            offset (offset + 999)
          = \<lparr>response_data = Some (take 1000 (drop offset (replicate 1000 []))),
             response_error = None\<rparr>"
    by (simp add: servedApi_def)
  from extractLoop_served [OF this, of 0 "[]" "[]"] show ?thesis
    by (simp add: pageRequests_def upt_rec)
qed

lemma assignProperty_other:
  "key \<noteq> ''__proto__'' \<Longrightarrow>
   assignProperty obj key v = obj\<lparr>own_properties := (own_properties obj)(key \<mapsto> v)\<rparr>"
  by (simp add: assignProperty_def)

lemma assignProperty_proto:
  "own_properties obj ''__proto__'' = None \<Longrightarrow> prototype obj \<noteq> ProtoNull \<Longrightarrow>
   assignProperty obj ''__proto__'' v = obj\<lparr>prototype := ProtoArray v\<rparr>"
  by (simp add: assignProperty_def)

text \<open>
  The second loop of \<^verbatim>\<open>extractAllData\<close> from an object that has a prototype and no property
  \<^verbatim>\<open>__proto__\<close> of its own: every listed table other than \<^verbatim>\<open>__proto__\<close> becomes a key with
  its own recorded dataset, every other key is left as it was, and a listed table named
  \<^verbatim>\<open>__proto__\<close> becomes the prototype instead of a key.
\<close>

lemma extractAllRows_result:
  assumes "\<forall>t \<in> set tables. extractTableData api (name t) \<noteq> None"
    and "own_properties acc ''__proto__'' = None" and "prototype acc \<noteq> ProtoNull"
  shows "\<exists>allData. extractAllRows api tables acc = Some allData
           \<and> (\<forall>k. own_properties allData k
                   = (if k \<in> name ` set tables \<and> k \<noteq> ''__proto__''
                      then Some (case extractTableData api k of
                                   Some (Inr rows) \<Rightarrow> rows
                                 | _ \<Rightarrow> [])
                      else own_properties acc k))
           \<and> prototype allData
               = (if ''__proto__'' \<in> name ` set tables
                  then ProtoArray (case extractTableData api ''__proto__'' of
                                     Some (Inr rows) \<Rightarrow> rows
                                   | _ \<Rightarrow> [])
                  else prototype acc)"
  using assms
proof (induction tables arbitrary: acc)
  case Nil
  then show ?case by simp
next
  case (Cons t ts)
  from Cons.prems(1) obtain res where res: "extractTableData api (name t) = Some res"
    by auto
  from Cons.prems(1) have rest: "\<forall>u \<in> set ts. extractTableData api (name u) \<noteq> None"
    by simp
  let ?rows = "case extractTableData api (name t) of Some (Inr rows) \<Rightarrow> rows | _ \<Rightarrow> []"
  let ?acc' = "assignProperty acc (name t) ?rows"
  have step: "extractAllRows api (t # ts) acc = extractAllRows api ts ?acc'"
    using res by (cases res) simp_all
  have inv: "own_properties ?acc' ''__proto__'' = None" "prototype ?acc' \<noteq> ProtoNull"
    using Cons.prems(2,3) by (auto simp: assignProperty_def)
  from Cons.IH [OF rest inv] obtain allData where
    ad: "extractAllRows api ts ?acc' = Some allData"
        "\<forall>k. own_properties allData k
             = (if k \<in> name ` set ts \<and> k \<noteq> ''__proto__''
                then Some (case extractTableData api k of Some (Inr rows) \<Rightarrow> rows | _ \<Rightarrow> [])
                else own_properties ?acc' k)"
        "prototype allData
         = (if ''__proto__'' \<in> name ` set ts
            then ProtoArray (case extractTableData api ''__proto__'' of
                               Some (Inr rows) \<Rightarrow> rows
                             | _ \<Rightarrow> [])
            else prototype ?acc')"
    by blast
  show ?case
  proof (cases "name t = ''__proto__''")
    case True
    then have acc': "?acc' = acc\<lparr>prototype := ProtoArray ?rows\<rparr>"
      using Cons.prems(2,3) by (simp add: assignProperty_def)
    show ?thesis
      unfolding step using ad True acc' by auto
  next
    case False
    then have acc': "?acc' = acc\<lparr>own_properties := (own_properties acc)(name t \<mapsto> ?rows)\<rparr>"
      by (simp add: assignProperty_def)
    show ?thesis
      unfolding step using ad False acc' by auto
  qed
qed

text \<open>
  What holds of claim C4 for every list of tables whose extractions all return:
  \<^verbatim>\<open>extractAllData\<close> returns without throwing; the keys of the object are the names of the
  tables other than \<^verbatim>\<open>__proto__\<close>; each of these tables has its own rows, or the empty
  array when its extraction failed, whatever happened to the tables before and after it.
\<close>

lemma extractAllData_datasets:
  assumes "\<forall>t \<in> set tables. extractTableData api (name t) \<noteq> None"
  shows "\<exists>allData columnTypes'.
           extractAllData cfg pg api columnTypes tables = Some (allData, columnTypes')
           \<and> dom (own_properties allData) = name ` set tables - {''__proto__''}
           \<and> (\<forall>t \<in> set tables. name t \<noteq> ''__proto__'' \<longrightarrow>
                 getProperty rt allData (name t)
                 = PRows (case extractTableData api (name t) of
                            Some (Inr rows) \<Rightarrow> rows
                          | _ \<Rightarrow> []))
           \<and> (''__proto__'' \<in> name ` set tables \<longrightarrow>
                 prototype allData
                 = ProtoArray (case extractTableData api ''__proto__'' of
                                 Some (Inr rows) \<Rightarrow> rows
                               | _ \<Rightarrow> []))"
proof -
  have e: "own_properties (emptyObject :: 'a js_dict) ''__proto__'' = None"
    "prototype (emptyObject :: 'a js_dict) \<noteq> ProtoNull"
    by (simp_all add: emptyObject_def)
  from extractAllRows_result [OF assms e] obtain allData where
    ad: "extractAllRows api tables emptyObject = Some allData"
        "\<forall>k. own_properties allData k
             = (if k \<in> name ` set tables \<and> k \<noteq> ''__proto__''
                then Some (case extractTableData api k of Some (Inr rows) \<Rightarrow> rows | _ \<Rightarrow> [])
                else own_properties emptyObject k)"
        "prototype allData
         = (if ''__proto__'' \<in> name ` set tables
            then ProtoArray (case extractTableData api ''__proto__'' of
                               Some (Inr rows) \<Rightarrow> rows
                             | _ \<Rightarrow> [])
            else prototype emptyObject)"
    by blast
  have d: "dom (own_properties allData) = name ` set tables - {''__proto__''}"
    using ad(2) by (auto simp: dom_def emptyObject_def split: if_splits)
  have r: "\<forall>t \<in> set tables. name t \<noteq> ''__proto__'' \<longrightarrow>
             getProperty rt allData (name t)
             = PRows (case extractTableData api (name t) of Some (Inr rows) \<Rightarrow> rows | _ \<Rightarrow> [])"
    using ad(2) by (simp add: getProperty_def)
  show ?thesis
    using ad(1,3) d r by (simp add: extractAllData_def Let_def)
qed

text \<open>
  Claim C4 asks that the dataset of every table is present in the returned mapping. A
  table of the public schema may be named \<^verbatim>\<open>__proto__\<close>. With the tables \<^verbatim>\<open>__proto__\<close> (two
  rows), \<^verbatim>\<open>broken\<close> (its extraction fails) and \<^verbatim>\<open>tags\<close> (no rows), the assignment
  \<^verbatim>\<open>allData["__proto__"] = data\<close> replaces the prototype of \<^verbatim>\<open>allData\<close> and adds no key: the
  returned object has the keys \<^verbatim>\<open>broken\<close> and \<^verbatim>\<open>tags\<close> only.
\<close>

theorem extractAllData_proto_table_is_no_key:
  "extractAllData restrictedConfig unreachablePg (servedApi protoDb) Map.empty
     [protoTable, brokenTable, tagsTable]
   = Some (\<lparr>own_properties = [''broken'' \<mapsto> [], ''tags'' \<mapsto> []],
            prototype = ProtoArray userRows\<rparr>,
           Map.empty)
   \<and> map_option (\<lambda>(allData, types). own_properties allData ''__proto__'')
         (extractAllData restrictedConfig unreachablePg (servedApi protoDb) Map.empty
            [protoTable, brokenTable, tagsTable])
       = Some None"
proof -
  have p: "extractTableData (servedApi protoDb) ''__proto__'' = Some (Inr userRows)"
    by (rule extractTableData_served) (simp add: protoDb_def)
  have g: "extractTableData (servedApi protoDb) ''tags'' = Some (Inr [])"
    by (rule extractTableData_served) (simp add: protoDb_def)
  have b: "extractTableData (servedApi protoDb) ''broken''
           = Some (Inl (Error ''Error fetching data from broken: relation does not exist''))"
    using extractTableData_unknown [of protoDb "''broken''"] by (simp add: protoDb_def)
  show ?thesis
    by (simp add: extractAllData_def restrictedConfig_def hasDatabaseUrl_def protoTable_def
        brokenTable_def tagsTable_def p g b assignProperty_def emptyObject_def)
qed

section \<open>Properties of SQL generation\<close>

lemma insertFragments_append:
  "insertFragments rt ct (xs @ ys) ds incl
   = (case insertFragments rt ct xs ds incl of
        Inl e \<Rightarrow> Inl e
      | Inr a \<Rightarrow>
          (case insertFragments rt ct ys ds incl of
             Inl e \<Rightarrow> Inl e
           | Inr b \<Rightarrow> Inr (a @ b)))"
  by (induction xs) (simp_all split: sum.splits)

text \<open>
  When \<^verbatim>\<open>data[table.name]\<close> is undefined or the empty array, the table contributes the
  comment and nothing else.
\<close>

lemma tableFragments_empty:
  "getProperty rt ds (name t) = PUndefined \<or> getProperty rt ds (name t) = PRows [] \<Longrightarrow>
   tableFragments rt ct t ds incl = Inr [noDataComment t]"
  by (auto simp: tableFragments_def noTableData_def)

lemma noDataComment_not_insert: "\<not> prefix ''INSERT'' (noDataComment t)"
  by (simp add: noDataComment_def)

lemma generateInsertStatements_empty_table:
  assumes "getProperty rt ds (name t) = PUndefined \<or> getProperty rt ds (name t) = PRows []"
    and "generateInsertStatements rt ct (pre @ t # post) ds incl = Inr doc"
  shows "\<exists>before after.
           generateInsertStatements rt ct pre ds incl = Inr before
           \<and> generateInsertStatements rt ct post ds incl = Inr after
           \<and> doc = before @ (''-- No data for table: '' @ name t @ ''\<newline>\<newline>'') @ after"
proof -
  have tf: "tableFragments rt ct t ds incl = Inr [noDataComment t]"
    using assms(1) by (rule tableFragments_empty)
  from assms(2) obtain frags where
    frags: "insertFragments rt ct (pre @ t # post) ds incl = Inr frags" "doc = concat frags"
    by (cases "insertFragments rt ct (pre @ t # post) ds incl")
       (auto simp: generateInsertStatements_def)
  from frags(1) obtain a b where
    ab: "insertFragments rt ct pre ds incl = Inr a" "insertFragments rt ct post ds incl = Inr b"
        "frags = a @ [noDataComment t] @ b"
    by (auto simp: insertFragments_append tf split: sum.splits)
  have "doc = concat a @ noDataComment t @ concat b"
    using frags(2) ab(3) by simp
  then show ?thesis
    using ab(1,2) by (simp add: generateInsertStatements_def noDataComment_def)
qed

text \<open>
  Claim C9 asks for the comment also when the table is absent from the dataset mapping.
  The lookup \<^verbatim>\<open>data[table.name]\<close> follows the prototype chain: for a table named
  \<^verbatim>\<open>constructor\<close> that the object literal \<^verbatim>\<open>{}\<close> does not hold, it finds the function
  \<^verbatim>\<open>Object\<close>, which is truthy and has the length 1. The comment is skipped and the loop
  over the rows throws a TypeError: no document is generated.
\<close>

theorem generateInsertStatements_inherited_name_throws:
  "own_properties (emptyObject :: 'n js_dict) (name constructorTable) = None
   \<and> getProperty rt (emptyObject :: 'n js_dict) (name constructorTable) = PFunction 1
   \<and> generateInsertStatements rt ct [constructorTable] (emptyObject :: 'n js_dict) incl
       = Inl (TypeError ''tableData is not iterable'')"
  by (simp add: generateInsertStatements_def tableFragments_def getProperty_def noTableData_def
      fromObjectPrototype_def Object_prototype_def emptyObject_def constructorTable_def)

text \<open>
  An inherited method of length 0 passes for an empty dataset, and \<^verbatim>\<open>Object.prototype\<close>
  itself, found under \<^verbatim>\<open>__proto__\<close>, throws like \<^verbatim>\<open>constructor\<close>.
\<close>

lemma tableFragments_inherited_toString:
  "tableFragments rt ct \<lparr>name = ''toString'', schema = s\<rparr> emptyObject incl
   = Inr [''-- No data for table: toString\<newline>\<newline>'']"
  by (simp add: tableFragments_def getProperty_def noTableData_def fromObjectPrototype_def
      Object_prototype_def emptyObject_def noDataComment_def)

lemma tableFragments_inherited_proto:
  "tableFragments rt ct protoTable emptyObject incl
   = Inl (TypeError ''tableData is not iterable'')"
  by (simp add: tableFragments_def getProperty_def noTableData_def fromObjectPrototype_def
      emptyObject_def protoTable_def)

lemmas example_defs =
  generateInsertStatements_def tableFragments_def getProperty_def noTableData_def
  fromObjectPrototype_def Object_prototype_def rowFragments_def
  insertStatement_def exampleData_def exampleDb_def usersTable_def tagsTable_def userRows_def
  quoteIdentifier_def quoteLiteral_def replaceAll_def squote_def dquote_def
  formatValue_def Number_isFinite_def numberText_def exampleRuntime_def rowValue_def
  noDataComment_def dataComment_def rowsComment_def showNat.simps Let_def

text \<open>The insert statements for a table with two rows and a table without rows.\<close>

lemma generateInsertStatements_example:
  \<open>generateInsertStatements exampleRuntime Map.empty [usersTable, tagsTable] exampleData False
   = Inr (''-- Data for table: users\<newline>-- Rows: 2\<newline>\<newline>''
      @ ''INSERT INTO "public"."users" ("id", "name") VALUES (1, 'Ann');\<newline>''
      @ ''INSERT INTO "public"."users" ("id", "name") VALUES (2, 'O'' @ [squote, squote]
      @ ''Brien');\<newline>''
      @ ''\<newline>''
      @ ''-- No data for table: tags\<newline>\<newline>'')\<close>
  by (simp add: example_defs)

lemma join_quoted_not_drop: "\<not> prefix ''DROP TABLE'' (join sep (map quoteIdentifier cols))"
proof (cases cols)
  case Nil
  then show ?thesis by simp
next
  case (Cons c cs)
  then show ?thesis by (cases cs) (simp_all add: quoteIdentifier_def dquote_def)
qed

lemma insertStatement_no_drop:
  "f \<in> set (insertStatement t cols vals) \<Longrightarrow> \<not> prefix ''DROP TABLE'' f"
  using join_quoted_not_drop [of "'', ''" cols]
  by (auto simp: insertStatement_def)

lemma insertRows_no_drop:
  "insertRows rt ct t rows = Inr stmts \<Longrightarrow> f \<in> set stmts \<Longrightarrow> \<not> prefix ''DROP TABLE'' f"
proof (induction rows arbitrary: stmts)
  case Nil
  then show ?case by simp
next
  case (Cons row rows)
  from Cons.prems(1) obtain stmt later where
    parts: "rowFragments rt ct t row = Inr stmt" "insertRows rt ct t rows = Inr later"
           "stmts = stmt @ later"
    by (auto split: sum.splits)
  from parts(1) obtain vals where "stmt = insertStatement t (map fst row) vals"
    by (auto simp: rowFragments_def Let_def split: sum.splits)
  then show ?case
    using Cons.prems(2) parts(3) Cons.IH [OF parts(2)] insertStatement_no_drop by auto
qed

lemma tableFragments_no_drop:
  assumes "tableFragments rt ct t ds False = Inr frags" and "f \<in> set frags"
  shows "\<not> prefix ''DROP TABLE'' f"
proof (cases "noTableData rt (getProperty rt ds (name t))")
  case True
  then show ?thesis
    using assms by (auto simp: tableFragments_def noDataComment_def)
next
  case False
  with assms(1) obtain rows stmts where
    st: "insertRows rt ct t rows = Inr stmts"
        "frags = [dataComment t, rowsComment (length rows)] @ stmts @ [''\<newline>'']"
    by (auto simp: tableFragments_def split: property_value.splits sum.splits)
  from assms(2) st(2) consider "f = dataComment t" | "f = rowsComment (length rows)"
    | "f \<in> set stmts" | "f = ''\<newline>''" by auto
  then show ?thesis
  proof cases
    case 3
    then show ?thesis using insertRows_no_drop [OF st(1)] by blast
  qed (simp_all add: dataComment_def rowsComment_def)
qed

lemma insertFragments_no_drop:
  "insertFragments rt ct tables ds False = Inr frags \<Longrightarrow> f \<in> set frags
   \<Longrightarrow> \<not> prefix ''DROP TABLE'' f"
proof (induction tables arbitrary: frags)
  case Nil
  then show ?case by simp
next
  case (Cons t ts)
  from Cons.prems(1) obtain a b where
    parts: "tableFragments rt ct t ds False = Inr a" "insertFragments rt ct ts ds False = Inr b"
           "frags = a @ b"
    by (auto split: sum.splits)
  show ?case
    using Cons.prems(2) parts(3) tableFragments_no_drop [OF parts(1)] Cons.IH [OF parts(2)]
    by auto
qed

text \<open>
  With the parameter set, a table that has rows does get the guard, as its first fragment.
\<close>

lemma tableFragments_drop_when_requested:
  assumes "getProperty rt ds (name t) = PRows tableData" and "tableData \<noteq> []"
    and "tableFragments rt ct t ds True = Inr frags"
  shows "hd frags = dropTableStatement t \<and> prefix ''DROP TABLE'' (hd frags)"
  using assms
  by (auto simp: tableFragments_def noTableData_def dropTableStatement_def split: sum.splits)

text \<open>
  The schema section copies the data definition texts of the catalog. Its own fragments
  are comments and \<^verbatim>\<open>DROP TYPE\<close> statements, so it holds a \<^verbatim>\<open>DROP TABLE\<close> statement only
  if the catalog supplies one.
\<close>

lemma not_prefix_append_separator:
  assumes "\<not> prefix p ddl" and "c \<notin> set p"
  shows "\<not> prefix p (ddl @ c # rest)"
proof
  assume "prefix p (ddl @ c # rest)"
  then consider "prefix p ddl" | us where "p = ddl @ us" "prefix us (c # rest)"
    unfolding prefix_append by blast
  then show False
  proof cases
    case 1
    then show ?thesis using assms(1) by simp
  next
    case 2
    show ?thesis
    proof (cases us)
      case Nil
      then show ?thesis using 2(1) assms(1) by simp
    next
      case (Cons u us')
      then have "u = c" using 2(2) by simp
      then show ?thesis using Cons 2(1) assms(2) by simp
    qed
  qed
qed

lemma not_drop_table_append:
  assumes "\<not> prefix ''DROP TABLE'' ddl" and "c = CHR 0x0A \<or> c = CHR '';''"
  shows "\<not> prefix ''DROP TABLE'' (ddl @ c # rest)"
proof (rule not_prefix_append_separator [OF assms(1)])
  show "c \<notin> set ''DROP TABLE''" using assms(2) by auto
qed

lemma schemaTables_no_drop:
  assumes "schemaTables pg tables = Inr frags" and "f \<in> set frags"
    and "\<forall>t \<in> set tables. \<forall>rows. createTableQuery pg (schema t) (name t) = Inr rows
           \<longrightarrow> (\<forall>ddl \<in> set rows. \<not> prefix ''DROP TABLE'' ddl)"
  shows "\<not> prefix ''DROP TABLE'' f"
  using assms
proof (induction tables arbitrary: frags)
  case Nil
  then show ?case by simp
next
  case (Cons t ts)
  from Cons.prems(1) obtain rows later where
    parts: "createTableQuery pg (schema t) (name t) = Inr rows" "schemaTables pg ts = Inr later"
      "frags = (case rows of [] \<Rightarrow> []
                | create_statement # others \<Rightarrow>
                    [tableComment t, create_statement @ ''\<newline>\<newline>'']) @ later"
    by (auto split: sum.splits)
  from Cons.prems(3) parts(1) have ok: "\<forall>ddl \<in> set rows. \<not> prefix ''DROP TABLE'' ddl"
    by simp
  from Cons.prems(3) have rest:
    "\<forall>t \<in> set ts. \<forall>rows. createTableQuery pg (schema t) (name t) = Inr rows
           \<longrightarrow> (\<forall>ddl \<in> set rows. \<not> prefix ''DROP TABLE'' ddl)"
    by simp
  show ?case
  proof (cases "f \<in> set later")
    case True
    then show ?thesis using Cons.IH [OF parts(2) _ rest] by blast
  next
    case False
    with Cons.prems(2) parts(3) obtain create_statement others where
      r: "rows = create_statement # others"
         "f = tableComment t \<or> f = create_statement @ ''\<newline>\<newline>''"
      by (cases rows) auto
    from r(2) show ?thesis
    proof
      assume "f = tableComment t"
      then show ?thesis by (simp add: tableComment_def)
    next
      assume "f = create_statement @ ''\<newline>\<newline>''"
      then show ?thesis
        using not_drop_table_append [of create_statement "CHR 0x0A" "''\<newline>''"] ok r(1)
        by simp
    qed
  qed
qed

lemma enumFragments_no_drop:
  assumes "f \<in> set (enumFragments enums)"
    and "\<forall>(type_name, create_enum) \<in> set enums. \<not> prefix ''DROP TABLE'' create_enum"
  shows "\<not> prefix ''DROP TABLE'' f"
proof -
  from assms(1) consider "f = ''-- Enum Types\<newline>\<newline>''"
    | type_name create_enum where "(type_name, create_enum) \<in> set enums"
        "f = ''DROP TYPE IF EXISTS '' @ type_name @ '' CASCADE;\<newline>''"
    | type_name create_enum where "(type_name, create_enum) \<in> set enums"
        "f = create_enum @ ''\<newline>\<newline>''"
    unfolding enumFragments_def by (fastforce split: if_splits)
  then show ?thesis
  proof cases
    case 1
    then show ?thesis by simp
  next
    case 2
    then show ?thesis by simp
  next
    case (3 type_name create_enum)
    from assms(2) 3(1) have "\<not> prefix ''DROP TABLE'' create_enum" by auto
    then show ?thesis
      unfolding 3(2) using not_drop_table_append [of create_enum "CHR 0x0A" "''\<newline>''"]
      by simp
  qed
qed

lemma indexFragments_no_drop:
  assumes "f \<in> set (indexFragments indexes)"
    and "\<forall>indexdef \<in> set indexes. \<not> prefix ''DROP TABLE'' indexdef"
  shows "\<not> prefix ''DROP TABLE'' f"
proof -
  from assms(1) consider "f = ''-- Indexes\<newline>\<newline>''"
    | indexdef where "indexdef \<in> set indexes" "f = indexdef @ '';\<newline>''"
    | "f = ''\<newline>''"
    unfolding indexFragments_def by (fastforce split: if_splits)
  then show ?thesis
  proof cases
    case 1
    then show ?thesis by simp
  next
    case (2 indexdef)
    from assms(2) 2(1) have "\<not> prefix ''DROP TABLE'' indexdef" by auto
    then show ?thesis
      unfolding 2(2) using not_drop_table_append [of indexdef "CHR '';''" "''\<newline>''"]
      by simp
  next
    case 3
    then show ?thesis by simp
  qed
qed

lemma schemaFragments_no_drop:
  assumes "schemaFragments pg tables = Inr frags" and "f \<in> set frags"
    and "\<forall>enums. enumQuery pg = Inr enums
           \<longrightarrow> (\<forall>(type_name, create_enum) \<in> set enums. \<not> prefix ''DROP TABLE'' create_enum)"
    and "\<forall>t \<in> set tables. \<forall>rows. createTableQuery pg (schema t) (name t) = Inr rows
           \<longrightarrow> (\<forall>ddl \<in> set rows. \<not> prefix ''DROP TABLE'' ddl)"
    and "\<forall>indexes. indexQuery pg = Inr indexes
           \<longrightarrow> (\<forall>indexdef \<in> set indexes. \<not> prefix ''DROP TABLE'' indexdef)"
  shows "\<not> prefix ''DROP TABLE'' f"
proof -
  from assms(1) obtain enums tableSql indexes where
    q: "enumQuery pg = Inr enums" "schemaTables pg tables = Inr tableSql"
       "indexQuery pg = Inr indexes"
    and fr: "frags = [''-- Database Schema\<newline>\<newline>''] @ enumFragments enums @ tableSql
                      @ indexFragments indexes"
    unfolding schemaFragments_def tryFinally_def
    by (auto split: option.splits sum.splits)
  from assms(2) fr consider
      (head) "f = ''-- Database Schema\<newline>\<newline>''"
    | (enum) "f \<in> set (enumFragments enums)"
    | (table) "f \<in> set tableSql"
    | (index) "f \<in> set (indexFragments indexes)"
    by auto
  then show ?thesis
  proof cases
    case head
    then show ?thesis by simp
  next
    case enum
    then show ?thesis using enumFragments_no_drop assms(3) q(1) by blast
  next
    case table
    then show ?thesis using schemaTables_no_drop [OF q(2) _ assms(4)] by blast
  next
    case index
    then show ?thesis using indexFragments_no_drop assms(5) q(3) by blast
  qed
qed

text \<open>
  The statements the generator itself writes into a document: the header, the schema
  section (the fragments of \<^verbatim>\<open>extractSchema\<close> when a connection string is configured, else
  the fixed note), the insert statements generated with \<^verbatim>\<open>includeDropStatements\<close> false,
  and the footer. No fragment of the header, of the insert statements and of the footer
  starts with \<^verbatim>\<open>DROP TABLE\<close>, and without a connection string none of the schema section
  does. This says nothing of the text inside a fragment.
\<close>

lemma generateReconstructionSQL_fragments:
  assumes "generateReconstructionSQL rt cfg pg ct now tables ds = Inr doc"
  shows "\<exists>schemaFrags frags.
           (if hasDatabaseUrl cfg then schemaFragments pg tables = Inr schemaFrags
            else schemaFrags = schemaSkippedNote)
           \<and> insertFragments rt ct tables ds False = Inr frags
           \<and> generateInsertStatements rt ct tables ds False = Inr (concat frags)
           \<and> doc = concat (reconstructionHeader now @ schemaFrags @ frags @ reconstructionFooter)
           \<and> (\<forall>f \<in> set (reconstructionHeader now @ frags @ reconstructionFooter).
                 \<not> prefix ''DROP TABLE'' f)
           \<and> (\<not> hasDatabaseUrl cfg \<longrightarrow> (\<forall>f \<in> set schemaFrags. \<not> prefix ''DROP TABLE'' f))"
proof -
  from assms obtain sql insertSQL where
    parts: "(if hasDatabaseUrl cfg
             then (case extractSchema pg tables of
                     Inl e \<Rightarrow> Inl e
                   | Inr schemaSQL \<Rightarrow> Inr (reconstructionHeader now @ [schemaSQL]))
             else Inr (reconstructionHeader now @ schemaSkippedNote)) = Inr sql"
      "generateInsertStatements rt ct tables ds False = Inr insertSQL"
      "doc = concat (sql @ [insertSQL] @ reconstructionFooter)"
    by (auto simp: generateReconstructionSQL_def split: sum.splits)
  from parts(2) obtain frags where
    frags: "insertFragments rt ct tables ds False = Inr frags" "insertSQL = concat frags"
    by (cases "insertFragments rt ct tables ds False") (auto simp: generateInsertStatements_def)
  have nodrop: "\<forall>f \<in> set frags. \<not> prefix ''DROP TABLE'' f"
    using insertFragments_no_drop [OF frags(1)] by blast
  have fixed: "\<forall>f \<in> set (reconstructionHeader now @ schemaSkippedNote @ reconstructionFooter).
                 \<not> prefix ''DROP TABLE'' f"
    by (simp add: reconstructionHeader_def schemaSkippedNote_def reconstructionFooter_def)
  have outside: "\<forall>f \<in> set (reconstructionHeader now @ frags @ reconstructionFooter).
                   \<not> prefix ''DROP TABLE'' f"
    using nodrop fixed by auto
  show ?thesis
  proof (cases "hasDatabaseUrl cfg")
    case True
    with parts(1) obtain schemaSQL where
      sch: "extractSchema pg tables = Inr schemaSQL" "sql = reconstructionHeader now @ [schemaSQL]"
      by (auto split: sum.splits)
    from sch(1) obtain schemaFrags where
      sf: "schemaFragments pg tables = Inr schemaFrags" "schemaSQL = concat schemaFrags"
      by (cases "schemaFragments pg tables") (auto simp: extractSchema_def)
    have "doc = concat (reconstructionHeader now @ schemaFrags @ frags @ reconstructionFooter)"
      using parts(3) sch(2) sf(2) frags(2) by simp
    then show ?thesis
      using True sf(1) frags(1) parts(2) frags(2) outside by auto
  next
    case False
    with parts(1) have "sql = reconstructionHeader now @ schemaSkippedNote" by simp
    then have "doc = concat (reconstructionHeader now @ schemaSkippedNote @ frags
                              @ reconstructionFooter)"
      using parts(3) frags(2) by simp
    then show ?thesis
      using False frags(1) parts(2) frags(2) outside fixed by auto
  qed
qed

text \<open>
  Claim C10 asks that no document contains a \<^verbatim>\<open>DROP TABLE\<close> statement. The comments copy
  \<^verbatim>\<open>table.name\<close> as it is, while the \<^verbatim>\<open>INSERT\<close> statements quote it. A table whose name
  holds a line break, a name the catalog can return, ends its comment line early, and the
  rest of the name is a line of the document: here the statement \<^verbatim>\<open>DROP TABLE users;\<close>,
  though the insert statements were generated with \<^verbatim>\<open>includeDropStatements\<close> false.
\<close>

theorem generateReconstructionSQL_line_break_name:
  \<open>generateReconstructionSQL exampleRuntime restrictedConfig unreachablePg Map.empty
     ''2026-01-01T00:00:00.000Z'' [lineBreakTable] emptyObject
   = Inr (''-- Database Reconstruction Script\<newline>''
      @ ''-- Generated: 2026-01-01T00:00:00.000Z\<newline>\<newline>''
      @ ''-- Note: The following session_replication_role commands require superuser privileges\<newline>''
      @ ''-- and have been commented out. Uncomment if you have appropriate permissions.\<newline>''
      @ ''-- SET session_replication_role = replica;\<newline>\<newline>''
      @ ''-- Note: Schema extraction requires DATABASE_URL to be set.\<newline>''
      @ ''-- Only data INSERT statements are included below.\<newline>\<newline>''
      @ ''-- No data for table: x\<newline>''
      @ ''DROP TABLE users; --\<newline>''
      @ ''\<newline>''
      @ ''\<newline>-- Re-enable triggers and constraints\<newline>''
      @ ''-- SET session_replication_role = DEFAULT;\<newline>'')
   \<and> map_sum id (\<lambda>doc. ''DROP TABLE users; --'' \<in> set (linesOf doc))
         (generateReconstructionSQL exampleRuntime restrictedConfig unreachablePg Map.empty
            ''2026-01-01T00:00:00.000Z'' [lineBreakTable] emptyObject)
       = Inr True\<close>
proof -
  have g: \<open>generateReconstructionSQL exampleRuntime restrictedConfig unreachablePg Map.empty
     ''2026-01-01T00:00:00.000Z'' [lineBreakTable] emptyObject
   = Inr (''-- Database Reconstruction Script\<newline>''
      @ ''-- Generated: 2026-01-01T00:00:00.000Z\<newline>\<newline>''
      @ ''-- Note: The following session_replication_role commands require superuser privileges\<newline>''
      @ ''-- and have been commented out. Uncomment if you have appropriate permissions.\<newline>''
      @ ''-- SET session_replication_role = replica;\<newline>\<newline>''
      @ ''-- Note: Schema extraction requires DATABASE_URL to be set.\<newline>''
      @ ''-- Only data INSERT statements are included below.\<newline>\<newline>''
      @ ''-- No data for table: x\<newline>''
      @ ''DROP TABLE users; --\<newline>''
      @ ''\<newline>''
      @ ''\<newline>-- Re-enable triggers and constraints\<newline>''
      @ ''-- SET session_replication_role = DEFAULT;\<newline>'')\<close>
    by (simp add: generateReconstructionSQL_def restrictedConfig_def hasDatabaseUrl_def
        reconstructionHeader_def schemaSkippedNote_def reconstructionFooter_def
        generateInsertStatements_def tableFragments_def getProperty_def noTableData_def
        fromObjectPrototype_def Object_prototype_def emptyObject_def lineBreakTable_def
        noDataComment_def)
  show ?thesis
    unfolding g by simp
qed

end
